theory Spec2Isabelle
  imports Main "HOL-Library.AList" "HOL-Library.Char_ord" "HOL-Library.List_Lexorder"
begin

section \<open>Batch executor (installMissingPackages / removeObsoletePackages)\<close>



















section \<open>JavaScript values, key paths and the configuration store\<close>

text \<open>
  Settings trees, package descriptors and configuration values are JSON data. The
  datatype has one more value, \<^verbatim>\<open>undefined\<close>, which JavaScript gives for a missing
  property. An object is the list of its properties in enumeration order; property names
  of an object are pairwise distinct, and all functions below read a list through
  \<^const>\<open>map_of\<close> and change it with \<^const>\<open>AList.update\<close> and \<^const>\<open>AList.delete\<close>.
  Numbers are integers here; only their equality and their decimal numerals are used.
\<close>

datatype json =
    JUndefined
  | JNull
  | JBool bool
  | JNum int
  | JStr string
  | JArr "json list"
  | JObj "(string \<times> json) list"

text \<open>\<^verbatim>\<open>x == null\<close>, the truth value of \<^verbatim>\<open>x\<close> in a condition, and \<^verbatim>\<open>x[key]\<close> for
  an own property of a plain object (other values have no such property here).\<close>

fun nullish :: "json \<Rightarrow> bool" where
  "nullish JUndefined = True"
| "nullish JNull = True"
| "nullish _ = False"

fun truthy :: "json \<Rightarrow> bool" where
  "truthy JUndefined = False"
| "truthy JNull = False"
| "truthy (JBool b) = b"
| "truthy (JNum n) = (n \<noteq> 0)"
| "truthy (JStr s) = (s \<noteq> [])"
| "truthy (JArr xs) = True"
| "truthy (JObj es) = True"

fun get_prop :: "json \<Rightarrow> string \<Rightarrow> json" where
  "get_prop (JObj es) k = (case map_of es k of Some v \<Rightarrow> v | None \<Rightarrow> JUndefined)"
| "get_prop _ k = JUndefined"

subsection \<open>The module key-path-helpers\<close>

text \<open>
  Modelled from the spec: \<^verbatim>\<open>setValueAtKeyPath\<close> and \<^verbatim>\<open>deleteValueAtKeyPath\<close> are
  imported from the module \<^verbatim>\<open>key-path-helpers\<close> (lines 656 and 672), which is not
  among the sources. A key path is the dot-joined address of a leaf within the nested
  settings tree (glossary); a dot preceded by a backslash belongs to the key (the test
  \<^verbatim>\<open>restores keys with dots\<close>). Setting a value creates the missing objects on the way;
  deleting removes the last key if the way to it exists. A path that leads through a value
  that is not a plain object is outside this model: setting gives \<open>None\<close> (for
  \<^verbatim>\<open>null\<close> and \<^verbatim>\<open>undefined\<close> JavaScript throws a TypeError), deleting changes
  nothing.
\<close>

fun unescape_dots :: "string \<Rightarrow> string" where
  "unescape_dots (c # d # cs) =
     (if c = CHR 0x5C \<and> d = CHR ''.'' then CHR ''.'' # unescape_dots cs
      else c # unescape_dots (d # cs))"
| "unescape_dots cs = cs"

fun split_from :: "char option \<Rightarrow> string \<Rightarrow> string \<Rightarrow> string list" where
  "split_from prev seg [] = [unescape_dots seg]"
| "split_from prev seg (c # cs) =
     (if c = CHR ''.'' \<and> prev \<noteq> Some (CHR 0x5C)
      then unescape_dots seg # split_from (Some c) [] cs
      else split_from (Some c) (seg @ [c]) cs)"

definition splitKeyPath :: "string \<Rightarrow> string list" where
  "splitKeyPath keyPath = split_from None [] keyPath"

fun setValueAtKeyPath :: "json \<Rightarrow> string list \<Rightarrow> json \<Rightarrow> json option" where
  "setValueAtKeyPath (JObj es) [k] v = Some (JObj (AList.update k v es))"
| "setValueAtKeyPath (JObj es) (k # k' # ks) v =
     (let child = get_prop (JObj es) k;
          child' = (if nullish child then JObj [] else child)
      in case setValueAtKeyPath child' (k' # ks) v of
           None \<Rightarrow> None
         | Some c \<Rightarrow> Some (JObj (AList.update k c es)))"
| "setValueAtKeyPath _ _ v = None"





subsection \<open>The host configuration store\<close>

text \<open>
  The editor's configuration store \<^verbatim>\<open>atom.config\<close> is a collaborator of the program.
  The functions below take what they read from it as a record: \<open>config_get\<close> is
  \<^verbatim>\<open>atom.config.get\<close>, \<open>config_settings\<close> is the tree \<^verbatim>\<open>atom.config.settings\<close>, and
  \<open>scoped_settings\<close> is the object
  \<^verbatim>\<open>atom.config.scopedSettingsStore.propertiesForSource(atom.config.mainSource)\<close>.
  What the program writes to it is returned as the list of its calls of
  \<^verbatim>\<open>atom.config.set(null, value, { scopeSelector })\<close>.
\<close>

record config =
  config_get :: "string \<Rightarrow> json"
  config_settings :: json
  scoped_settings :: "(string \<times> json) list"

definition REMOVE_KEYS :: "string list" where
  "REMOVE_KEYS =
     [''sync-settings.gistId'',
      ''sync-settings.personalAccessToken'',
      ''sync-settings.hiddenSettings._lastBackupTime'',
      ''sync-settings._analyticsUserId'',
      ''sync-settings._lastBackupHash'',
      ''sync-settings.hiddenSettings._lastBackupHash'']"

text \<open>
  \<^verbatim>\<open>atom.config.get(key) || []\<close> for a setting that the package declares as an array of
  strings (\<^verbatim>\<open>blacklistedKeys\<close>, \<^verbatim>\<open>extraFiles\<close>, \<^verbatim>\<open>extraFilesGlob\<close>,
  \<^verbatim>\<open>ignoreFilesGlob\<close>).
\<close>

fun strings_of :: "json list \<Rightarrow> string list" where
  "strings_of [] = []"
| "strings_of (JStr s # xs) = s # strings_of xs"
| "strings_of (_ # xs) = strings_of xs"

definition string_array :: "config \<Rightarrow> string \<Rightarrow> string list" where
  "string_array atom key = (case config_get atom key of JArr xs \<Rightarrow> strings_of xs | _ \<Rightarrow> [])"

definition blacklistedKeys :: "config \<Rightarrow> string list" where
  "blacklistedKeys atom = REMOVE_KEYS @ string_array atom ''sync-settings.blacklistedKeys''"

definition global_scope :: "(string \<times> json) list \<Rightarrow> json" where
  "global_scope settings = get_prop (JObj settings) ''*''"

subsection \<open>getFilteredSettings, addFilteredSettings, updateSettings\<close>


text \<open>
  \<^verbatim>\<open>addFilteredSettings\<close> (lines 655-669): the loop over the blacklisted keys, on the
  object \<^verbatim>\<open>settings['*']\<close>, which it changes in place.
\<close>

fun reseed :: "(string \<Rightarrow> json) \<Rightarrow> string list \<Rightarrow> json \<Rightarrow> json option" where
  "reseed get [] t = Some t"
| "reseed get (blacklistedKey # keys) t =
     (let value = get blacklistedKey
      in if value \<noteq> JUndefined then
           (case setValueAtKeyPath t (splitKeyPath blacklistedKey) value of
              None \<Rightarrow> None
            | Some t' \<Rightarrow> reseed get keys t')
         else reseed get keys t)"

definition addFilteredSettings :: "config \<Rightarrow> (string \<times> json) list \<Rightarrow> (string \<times> json) list option" where
  "addFilteredSettings atom settings =
     (case reseed (config_get atom) (blacklistedKeys atom) (global_scope settings) of
        None \<Rightarrow> None
      | Some t \<Rightarrow> Some (if map_of settings ''*'' = None then settings
                        else AList.update ''*'' t settings))"

text \<open>
  \<^verbatim>\<open>updateSettings\<close> (lines 644-653), for a settings object. The result is the list of
  the calls \<^verbatim>\<open>atom.config.set(null, settings[scopeSelector], { scopeSelector })\<close>, each as
  the pair of the scope selector and the value; \<open>None\<close> when \<^verbatim>\<open>addFilteredSettings\<close>
  does not return.
\<close>

definition updateSettings :: "config \<Rightarrow> (string \<times> json) list \<Rightarrow> (string \<times> json) list option" where
  "updateSettings atom settings =
     (let settings1 = (if map_of settings ''*'' = None then [(''*'', JObj settings)] else settings)
      in addFilteredSettings atom settings1)"


subsection \<open>Example configurations and backups\<close>

text \<open>
  A configuration in which the backup identifier is set and the access token is not (no
  value is stored under its key), and a backup whose global scope carries values for both
  keys.
\<close>

definition example_config :: config where
  "example_config =
     \<lparr>config_get = (\<lambda>k.
          if k = ''sync-settings.gistId'' then JStr ''live-id''
          else if k = ''sync-settings.syncSettings'' then JBool True
          else JUndefined),
      config_settings =
        JObj [(''sync-settings'', JObj [(''gistId'', JStr ''live-id''), (''syncSettings'', JBool True)])],
      scoped_settings = []\<rparr>"


definition legacy_backup :: "(string \<times> json) list" where
  "legacy_backup = [(''editor'', JObj [(''fontSize'', JNum 14)])]"

section \<open>Snapshots and the diff engine\<close>

record file_obj =
  path :: string
  content :: string

text \<open>
  A snapshot, as \<^verbatim>\<open>getLocalData\<close> and \<^verbatim>\<open>getBackupData\<close> build it: the settings tree
  and the package object are JSON values (\<^verbatim>\<open>null\<close> when the category is not
  synchronised), the files are \<^verbatim>\<open>null\<close> (\<open>None\<close>) or an object from file names to
  files.
\<close>

record snapshot =
  settings :: json
  packages :: json
  files :: "(string \<times> file_obj) list option"

text \<open>\<^verbatim>\<open>Object.keys(x)\<close> and the properties that \<^verbatim>\<open>for (const prop in x)\<close> visits, for a
  plain object; other values have none here.\<close>

fun props :: "json \<Rightarrow> (string \<times> json) list" where
  "props (JObj es) = es"
| "props _ = []"

definition object_keys :: "json \<Rightarrow> string list" where
  "object_keys x = map fst (props x)"

subsection \<open>The module deep-object-diff\<close>

text \<open>
  Modelled from the spec: \<^verbatim>\<open>diffObject.detailedDiff\<close> is imported from the module
  \<^verbatim>\<open>deep-object-diff\<close> (line 11), which is not among the sources. The spec describes it
  (4.2) as a structural diff over the merged key space: a key present only in the backup
  is added, a key present only in the local tree is deleted, a key present in both with a
  different leaf value is updated; internal nodes recurse, arrays are leaves. The result
  has the three trees \<^verbatim>\<open>added\<close>, \<^verbatim>\<open>deleted\<close> and \<^verbatim>\<open>updated\<close>; a subtree without a
  difference is left out. The added and updated trees carry the values of the right-hand
  side. The deleted tree carries \<^verbatim>\<open>undefined\<close> at a deleted key: the callers look the
  values up again, in \<^verbatim>\<open>localData.packages\<close> (line 972) and in the configuration
  (lines 1015-1017).
\<close>

fun addedDiff :: "json \<Rightarrow> json \<Rightarrow> json"
  and addedProps :: "(string \<times> json) list \<Rightarrow> (string \<times> json) list \<Rightarrow> (string \<times> json) list" where
  "addedDiff (JObj l) (JObj r) = JObj (addedProps l r)"
| "addedDiff _ _ = JObj []"
| "addedProps l [] = []"
| "addedProps l ((key, rv) # r) =
     (case map_of l key of
        None \<Rightarrow> (key, rv) # addedProps l r
      | Some lv \<Rightarrow>
          (let difference = addedDiff lv rv
           in if difference = JObj [] then addedProps l r
              else (key, difference) # addedProps l r))"

fun deletedDiff :: "json \<Rightarrow> json \<Rightarrow> json"
  and deletedProps :: "(string \<times> json) list \<Rightarrow> (string \<times> json) list \<Rightarrow> (string \<times> json) list" where
  "deletedDiff (JObj l) (JObj r) = JObj (deletedProps l r)"
| "deletedDiff _ _ = JObj []"
| "deletedProps [] r = []"
| "deletedProps ((key, lv) # l) r =
     (case map_of r key of
        None \<Rightarrow> (key, JUndefined) # deletedProps l r
      | Some rv \<Rightarrow>
          (let difference = deletedDiff lv rv
           in if difference = JObj [] then deletedProps l r
              else (key, difference) # deletedProps l r))"

fun updatedDiff :: "json \<Rightarrow> json \<Rightarrow> json"
  and updatedProps :: "(string \<times> json) list \<Rightarrow> (string \<times> json) list \<Rightarrow> (string \<times> json) list" where
  "updatedDiff (JObj l) (JObj r) = JObj (updatedProps l r)"
| "updatedDiff l r = (if l = r then JObj [] else r)"
| "updatedProps l [] = []"
| "updatedProps l ((key, rv) # r) =
     (case map_of l key of
        None \<Rightarrow> updatedProps l r
      | Some lv \<Rightarrow>
          (let difference = updatedDiff lv rv
           in if difference = JObj [] then updatedProps l r
              else (key, difference) # updatedProps l r))"

record detailed =
  added :: json
  deleted :: json
  updated :: json

definition detailedDiff :: "json \<Rightarrow> json \<Rightarrow> detailed" where
  "detailedDiff lhs rhs =
     \<lparr>added = addedDiff lhs rhs, deleted = deletedDiff lhs rhs, updated = updatedDiff lhs rhs\<rparr>"

subsection \<open>settingsToKeyPaths\<close>

record entry =
  keyPath :: string
  val :: json
  oldValue :: "json option"

text \<open>
  \<^verbatim>\<open>settingsToKeyPaths\<close> (lines 1010-1032); the field \<open>val\<close> is the property
  \<^verbatim>\<open>value\<close>, and \<open>oldValue\<close> is \<open>None\<close> when the property is not set. The argument
  \<open>get\<close> is \<^verbatim>\<open>atom.config.get\<close>. The method descends into the value that \<^verbatim>\<open>atom.config.get\<close>
  returns for a \<^verbatim>\<open>null\<close> or \<^verbatim>\<open>undefined\<close> item, so its recursion is not bounded by
  the size of \<open>obj\<close>: the number \<open>depth\<close> bounds the nesting of the calls, and the
  result is \<open>None\<close> when the bound is reached. \<open>keyPathsOfProps\<close> is the loop over the
  properties of \<open>obj\<close>, and \<open>next_prefix\<close> is the expression of line 1013.
\<close>

fun is_object :: "json \<Rightarrow> bool" where
  "is_object JNull = True"
| "is_object (JObj es) = True"
| "is_object _ = False"

definition next_prefix :: "string \<Rightarrow> string \<Rightarrow> string" where
  "next_prefix prefix prop =
     (if prefix \<noteq> [] then prefix @ ''.'' @ prop else if prop = ''*'' then [] else prop)"

fun keyPathsOfProps :: "nat \<Rightarrow> (string \<Rightarrow> json) \<Rightarrow> (string \<times> json) list \<Rightarrow> string \<Rightarrow> bool
    \<Rightarrow> entry list option" where
  "keyPathsOfProps depth get [] prefix getOldValue = Some []"
| "keyPathsOfProps depth get ((prop, v) # rest) prefix getOldValue =
     (let nextPrefix = next_prefix prefix prop;
          item = (if nullish v then get nextPrefix else v);
          pushed =
            (if is_object item then
               (case depth of
                  0 \<Rightarrow> None
                | Suc d \<Rightarrow> keyPathsOfProps d get (props item) nextPrefix getOldValue)
             else Some [\<lparr>keyPath = nextPrefix, val = item,
                          oldValue = (if getOldValue then Some (get nextPrefix) else None)\<rparr>])
      in case pushed of
           None \<Rightarrow> None
         | Some xs \<Rightarrow>
             (case keyPathsOfProps depth get rest prefix getOldValue of
                None \<Rightarrow> None
              | Some ys \<Rightarrow> Some (xs @ ys)))"

definition settingsToKeyPaths :: "nat \<Rightarrow> (string \<Rightarrow> json) \<Rightarrow> json \<Rightarrow> string \<Rightarrow> bool
    \<Rightarrow> entry list option" where
  "settingsToKeyPaths depth get obj prefix getOldValue =
     keyPathsOfProps depth get (props obj) prefix getOldValue"

subsection \<open>getDiffData\<close>

record settings_diff =
  settings_added :: "entry list option"
  settings_updated :: "entry list option"
  settings_deleted :: "entry list option"

record packages_diff =
  packages_added :: "json option"
  packages_updated :: "json option"
  packages_deleted :: "json option"

record files_diff =
  files_added :: "(string \<times> file_obj) list option"
  files_updated :: "(string \<times> file_obj) list option"
  files_deleted :: "(string \<times> file_obj) list option"

record diff_data =
  diff_settings :: "settings_diff option"
  diff_packages :: "packages_diff option"
  diff_files :: "files_diff option"

text \<open>
  The loops \<^verbatim>\<open>for (const prop in settings)\<close> (lines 925-929 and 950-954) delete the
  trees without keys from the result of \<^verbatim>\<open>detailedDiff\<close>; \<open>kept t\<close> is the property
  afterwards (\<open>None\<close>: deleted).
\<close>

definition kept :: "json \<Rightarrow> json option" where
  "kept t = (if length (object_keys t) = 0 then None else Some t)"

definition is_set :: "json option \<Rightarrow> bool" where
  "is_set p = (case p of None \<Rightarrow> False | Some t \<Rightarrow> truthy t)"

definition optional_paths :: "nat \<Rightarrow> (string \<Rightarrow> json) \<Rightarrow> json option \<Rightarrow> bool
    \<Rightarrow> entry list option option" where
  "optional_paths depth get p getOldValue =
     (case p of
        None \<Rightarrow> Some None
      | Some t \<Rightarrow>
          if truthy t then map_option Some (settingsToKeyPaths depth get t [] getOldValue)
          else Some None)"

text \<open>The settings part of \<^verbatim>\<open>getDiffData\<close> (lines 923-946); \<open>None\<close> when a call of
  \<^verbatim>\<open>settingsToKeyPaths\<close> reaches the bound.\<close>

definition diffSettings :: "nat \<Rightarrow> (string \<Rightarrow> json) \<Rightarrow> json \<Rightarrow> json \<Rightarrow> settings_diff option option" where
  "diffSettings depth get localSettings backupSettings =
     (if truthy backupSettings \<and> truthy localSettings then
        (let d = detailedDiff localSettings backupSettings;
             a = kept (added d); u = kept (updated d); r = kept (deleted d)
         in if a \<noteq> None \<or> r \<noteq> None \<or> u \<noteq> None then
              (case optional_paths depth get a False of
                 None \<Rightarrow> None
               | Some sa \<Rightarrow>
                  (case optional_paths depth get u True of
                     None \<Rightarrow> None
                   | Some su \<Rightarrow>
                      (case optional_paths depth get r False of
                         None \<Rightarrow> None
                       | Some sd \<Rightarrow>
                           Some (Some \<lparr>settings_added = sa, settings_updated = su,
                                       settings_deleted = sd\<rparr>))))
            else Some None)
      else if truthy backupSettings then
        map_option (\<lambda>es. Some \<lparr>settings_added = Some es, settings_updated = None,
                                settings_deleted = None\<rparr>)
          (settingsToKeyPaths depth get backupSettings [] False)
      else if truthy localSettings then
        map_option (\<lambda>es. Some \<lparr>settings_added = None, settings_updated = None,
                                settings_deleted = Some es\<rparr>)
          (settingsToKeyPaths depth get localSettings [] False)
      else Some None)"

text \<open>The packages part (lines 948-980).\<close>

definition diffPackages :: "json \<Rightarrow> json \<Rightarrow> packages_diff option" where
  "diffPackages localPackages backupPackages =
     (if truthy backupPackages \<and> truthy localPackages then
        (let d = detailedDiff localPackages backupPackages;
             a = kept (added d); u = kept (updated d); r = kept (deleted d)
         in if a \<noteq> None \<or> r \<noteq> None \<or> u \<noteq> None then
              Some \<lparr>packages_added = (if is_set a then a else None),
                    packages_updated =
                      (if is_set u then
                         Some (JObj (map (\<lambda>name. (name,
                            JObj [(''backup'', get_prop backupPackages name),
                                  (''local'', get_prop localPackages name)]))
                            (object_keys (the u))))
                       else None),
                    packages_deleted =
                      (if is_set r then
                         Some (JObj (map (\<lambda>name. (name, get_prop localPackages name))
                            (object_keys (the r))))
                       else None)\<rparr>
            else None)
      else if truthy backupPackages then
        Some \<lparr>packages_added = Some backupPackages, packages_updated = None,
              packages_deleted = None\<rparr>
      else if truthy localPackages then
        Some \<lparr>packages_added = None, packages_updated = None,
              packages_deleted = Some localPackages\<rparr>
      else None)"

text \<open>\<^verbatim>\<open>addDiffFile\<close> (lines 1034-1042).\<close>

datatype diff_method = Added | Updated | Deleted

definition addDiffFile :: "files_diff option \<Rightarrow> diff_method \<Rightarrow> string \<Rightarrow> file_obj \<Rightarrow> files_diff option" where
  "addDiffFile diffFiles m fileName fileObj =
     (let d = (case diffFiles of
                 None \<Rightarrow> \<lparr>files_added = None, files_updated = None, files_deleted = None\<rparr>
               | Some d \<Rightarrow> d);
          put = (\<lambda>bucket. Some (AList.update fileName fileObj
                   (case bucket of None \<Rightarrow> [] | Some b \<Rightarrow> b)))
      in Some (case m of
                 Added \<Rightarrow> d\<lparr>files_added := put (files_added d)\<rparr>
               | Updated \<Rightarrow> d\<lparr>files_updated := put (files_updated d)\<rparr>
               | Deleted \<Rightarrow> d\<lparr>files_deleted := put (files_deleted d)\<rparr>))"

text \<open>
  The files part (lines 982-1005). \<^verbatim>\<open>[...new Set(...)].sort()\<close> is the default sort, by
  code units. \<open>patch\<close> is \<^verbatim>\<open>diff.createTwoFilesPatch\<close> of the module \<^verbatim>\<open>diff\<close> with the
  fixed arguments of line 995, as a function of the two contents.
\<close>

definition fileNames :: "(string \<times> file_obj) list option \<Rightarrow> (string \<times> file_obj) list option \<Rightarrow> string list" where
  "fileNames localFiles backupFiles =
     sort (remdups (map fst (case localFiles of None \<Rightarrow> [] | Some fs \<Rightarrow> fs) @
                    map fst (case backupFiles of None \<Rightarrow> [] | Some fs \<Rightarrow> fs)))"

definition file_of :: "(string \<times> file_obj) list option \<Rightarrow> string \<Rightarrow> file_obj option" where
  "file_of fs fileName = (case fs of None \<Rightarrow> None | Some fs \<Rightarrow> map_of fs fileName)"

definition diffFile :: "(string \<Rightarrow> string \<Rightarrow> string) \<Rightarrow> (string \<times> file_obj) list option
    \<Rightarrow> (string \<times> file_obj) list option \<Rightarrow> string \<Rightarrow> files_diff option \<Rightarrow> files_diff option" where
  "diffFile patch localFiles backupFiles fileName diffFiles =
     (case (file_of backupFiles fileName, file_of localFiles fileName) of
        (Some backupFile, Some localFile) \<Rightarrow>
          if content localFile \<noteq> content backupFile then
            addDiffFile diffFiles Updated fileName
              (backupFile\<lparr>content := patch (content localFile) (content backupFile)\<rparr>)
          else diffFiles
      | (Some backupFile, None) \<Rightarrow> addDiffFile diffFiles Added fileName backupFile
      | (None, Some localFile) \<Rightarrow> addDiffFile diffFiles Deleted fileName localFile
      | (None, None) \<Rightarrow> diffFiles)"

definition diffFiles :: "(string \<Rightarrow> string \<Rightarrow> string) \<Rightarrow> (string \<times> file_obj) list option
    \<Rightarrow> (string \<times> file_obj) list option \<Rightarrow> files_diff option" where
  "diffFiles patch localFiles backupFiles =
     (if localFiles \<noteq> None \<or> backupFiles \<noteq> None then
        fold (diffFile patch localFiles backupFiles) (fileNames localFiles backupFiles) None
      else None)"

definition getDiffData :: "nat \<Rightarrow> (string \<Rightarrow> json) \<Rightarrow> (string \<Rightarrow> string \<Rightarrow> string)
    \<Rightarrow> snapshot \<Rightarrow> snapshot \<Rightarrow> diff_data option" where
  "getDiffData depth get patch localData backupData =
     (case diffSettings depth get (settings localData) (settings backupData) of
        None \<Rightarrow> None
      | Some s \<Rightarrow>
          Some \<lparr>diff_settings = s,
                diff_packages = diffPackages (packages localData) (packages backupData),
                diff_files = diffFiles patch (files localData) (files backupData)\<rparr>)"













subsection \<open>Well-formed trees\<close>

text \<open>
  The property names of a JavaScript object are pairwise distinct; \<open>distinct_keys\<close> says
  so for a tree and for the objects below it. \<open>null_free\<close>: no property has the value
  \<^verbatim>\<open>null\<close> or \<^verbatim>\<open>undefined\<close>. \<open>nesting\<close>: the number of objects nested in one
  another. \<open>leaves\<close>: the values that are not plain objects, each with the list of the
  keys that lead to it; \<open>key_path_of\<close> is the key path that \<^verbatim>\<open>settingsToKeyPaths\<close>
  builds along such a list.
\<close>

fun distinct_keys :: "json \<Rightarrow> bool"
  and distinct_keys_props :: "(string \<times> json) list \<Rightarrow> bool" where
  "distinct_keys (JObj es) = (distinct (map fst es) \<and> distinct_keys_props es)"
| "distinct_keys _ = True"
| "distinct_keys_props [] = True"
| "distinct_keys_props ((k, v) # es) = (distinct_keys v \<and> distinct_keys_props es)"


fun nesting :: "json \<Rightarrow> nat"
  and nesting_props :: "(string \<times> json) list \<Rightarrow> nat" where
  "nesting (JObj es) = Suc (nesting_props es)"
| "nesting _ = 0"
| "nesting_props [] = 0"
| "nesting_props ((k, v) # es) = max (nesting v) (nesting_props es)"




definition bucket :: "diff_method \<Rightarrow> files_diff option \<Rightarrow> (string \<times> file_obj) list option" where
  "bucket m d =
     (case d of
        None \<Rightarrow> None
      | Some d \<Rightarrow> (case m of Added \<Rightarrow> files_added d | Updated \<Rightarrow> files_updated d
                   | Deleted \<Rightarrow> files_deleted d))"

subsection \<open>The packages to install on restore\<close>


subsection \<open>Example snapshots\<close>

text \<open>
  The examples of section 8 of the spec: the font size 14 locally, 16 in the backup and 15
  in the live configuration; the package \<open>foo\<close> with an install source in the backup
  only; the file \<open>a\<close> changed and the file \<open>b\<close> only in the backup.
\<close>

definition local_snapshot :: snapshot where
  "local_snapshot =
     \<lparr>settings = JObj [(''*'', JObj [(''editor'', JObj [(''fontSize'', JNum 14)])])],
      packages = JObj [(''foo'', JObj [(''version'', JStr ''1.0'')])],
      files = Some [(''a'', \<lparr>path = ''/a'', content = ''x''\<rparr>)]\<rparr>"


definition live_get :: "string \<Rightarrow> json" where
  "live_get k = (if k = ''editor.fontSize'' then JNum 15 else JUndefined)"

definition example_patch :: "string \<Rightarrow> string \<Rightarrow> string" where
  "example_patch old new = ''-'' @ old @ '' +'' @ new"




section \<open>Sorting the files of a snapshot\<close>









section \<open>Classifying the blobs of a backup (getBackupData)\<close>



























subsection \<open>Example backups\<close>





section \<open>Proofs: batch executor\<close>

























section \<open>Proofs: blacklisted keys and restored settings\<close>



















text \<open>
  Claim C10. A settings object without the key \<open>*\<close> is wrapped as the global scope
  before the blacklisted keys are re-seeded: the keys are re-seeded into the whole tree,
  and the only call of \<^verbatim>\<open>atom.config.set\<close> is the one for the scope selector \<open>*\<close>,
  with the whole re-seeded tree as its value. No top-level key of the tree is used as a
  scope selector.
\<close>

theorem updateSettings_wraps_legacy:
  assumes "map_of tree ''*'' = None"
  shows "updateSettings atom tree = addFilteredSettings atom [(''*'', JObj tree)] \<and>
         updateSettings atom tree =
           map_option (\<lambda>t. [(''*'', t)])
             (reseed (config_get atom) (blacklistedKeys atom) (JObj tree))"
  using assms
  by (simp add: updateSettings_def addFilteredSettings_def global_scope_def split: option.splits)

theorem updateSettings_wraps_legacy_witness:
  "map_of legacy_backup ''*'' = None \<and>
   updateSettings example_config legacy_backup =
     Some [(''*'', JObj [(''editor'', JObj [(''fontSize'', JNum 14)]),
                        (''sync-settings'', JObj [(''gistId'', JStr ''live-id'')])])]"
proof -
  have a: "map_of legacy_backup ''*'' = None" by (simp add: legacy_backup_def)
  have r: "reseed (config_get example_config) (blacklistedKeys example_config) (JObj legacy_backup) =
     Some (JObj [(''editor'', JObj [(''fontSize'', JNum 14)]),
                 (''sync-settings'', JObj [(''gistId'', JStr ''live-id'')])])"
    by (simp add: legacy_backup_def example_config_def blacklistedKeys_def REMOVE_KEYS_def
        string_array_def splitKeyPath_def Let_def)
  from updateSettings_wraps_legacy[OF a, of example_config]
  have "updateSettings example_config legacy_backup =
           map_option (\<lambda>t. [(''*'', t)])
             (reseed (config_get example_config) (blacklistedKeys example_config) (JObj legacy_backup))"
    by (rule conjunct2)
  then show ?thesis using a r by simp
qed

section \<open>Proofs: diff engine\<close>

lemma distinct_keys_props_iff:
  "distinct_keys_props es \<longleftrightarrow> (\<forall>(k, v) \<in> set es. distinct_keys v)"
  by (induction es) auto

lemma added_same:
  "(a = b \<longrightarrow> distinct_keys a \<longrightarrow> addedDiff a b = JObj [])"
  "(distinct (map fst l) \<longrightarrow> set r \<subseteq> set l \<longrightarrow> distinct_keys_props r \<longrightarrow> addedProps l r = [])"
proof (induction a b and l r rule: addedDiff_addedProps.induct)
  case (1 l r)
  then show ?case by auto
next
  case (4 l key rv r)
  show ?case
  proof (intro impI)
    assume d: "distinct (map fst l)" and s: "set ((key, rv) # r) \<subseteq> set l"
      and w: "distinct_keys_props ((key, rv) # r)"
    then have m: "map_of l key = Some rv" by simp
    have "addedDiff rv rv = JObj []" using 4(2)[OF m] w by simp
    moreover have "addedProps l r = []" using 4(3)[OF m refl] 4(4)[OF m refl] d s w m by auto
    ultimately show "addedProps l ((key, rv) # r) = []" using m by simp
  qed
qed auto

lemma deleted_same:
  "(a = b \<longrightarrow> distinct_keys a \<longrightarrow> deletedDiff a b = JObj [])"
  "(distinct (map fst r) \<longrightarrow> set l \<subseteq> set r \<longrightarrow> distinct_keys_props l \<longrightarrow> deletedProps l r = [])"
proof (induction a b and l r rule: deletedDiff_deletedProps.induct)
  case (1 l r)
  then show ?case by auto
next
  case (4 key lv l r)
  show ?case
  proof (intro impI)
    assume d: "distinct (map fst r)" and s: "set ((key, lv) # l) \<subseteq> set r"
      and w: "distinct_keys_props ((key, lv) # l)"
    then have m: "map_of r key = Some lv" by simp
    have "deletedDiff lv lv = JObj []" using 4(2)[OF m] w by simp
    moreover have "deletedProps l r = []" using 4(3)[OF m refl] 4(4)[OF m refl] d s w m by auto
    ultimately show "deletedProps ((key, lv) # l) r = []" using m by simp
  qed
qed auto

lemma updated_same:
  "(a = b \<longrightarrow> distinct_keys a \<longrightarrow> updatedDiff a b = JObj [])"
  "(distinct (map fst l) \<longrightarrow> set r \<subseteq> set l \<longrightarrow> distinct_keys_props r \<longrightarrow> updatedProps l r = [])"
proof (induction a b and l r rule: updatedDiff_updatedProps.induct)
  case (1 l r)
  then show ?case by auto
next
  case (4 l key rv r)
  show ?case
  proof (intro impI)
    assume d: "distinct (map fst l)" and s: "set ((key, rv) # r) \<subseteq> set l"
      and w: "distinct_keys_props ((key, rv) # r)"
    then have m: "map_of l key = Some rv" by simp
    have "updatedDiff rv rv = JObj []" using 4(2)[OF m] w by simp
    moreover have "updatedProps l r = []" using 4(3)[OF m refl] 4(4)[OF m refl] d s w m by auto
    ultimately show "updatedProps l ((key, rv) # r) = []" using m by simp
  qed
qed auto

lemma detailedDiff_same:
  "distinct_keys a \<Longrightarrow>
   detailedDiff a a = \<lparr>added = JObj [], deleted = JObj [], updated = JObj []\<rparr>"
  by (simp add: detailedDiff_def added_same(1) deleted_same(1) updated_same(1))

lemma kept_empty: "kept (JObj []) = None"
  by (simp add: kept_def object_keys_def)

lemma diffSettings_same: "distinct_keys a \<Longrightarrow> diffSettings depth get a a = Some None"
  by (simp add: diffSettings_def detailedDiff_same kept_empty)

lemma diffPackages_same: "distinct_keys a \<Longrightarrow> diffPackages a a = None"
  by (simp add: diffPackages_def detailedDiff_same kept_empty)

lemma diffFile_same: "diffFile patch fs fs fileName d = d"
  by (simp add: diffFile_def split: option.splits)

lemma diffFiles_same: "diffFiles patch fs fs = None"
proof -
  have "fold (diffFile patch fs fs) names d = d" for names d
    by (induction names) (simp_all add: diffFile_same)
  then show ?thesis by (simp add: diffFiles_def)
qed

text \<open>
  Claim C2. The diff of a snapshot with itself (two equal snapshots, whose objects have
  pairwise distinct property names, as every JavaScript object has) is returned, whatever
  the configuration, and all three sub-diffs are absent (\<open>None\<close>, which stands for
  \<^verbatim>\<open>null\<close>), not empty objects.
\<close>

theorem getDiffData_same:
  assumes "distinct_keys (settings a)" and "distinct_keys (packages a)"
  shows "getDiffData depth get patch a a =
           Some \<lparr>diff_settings = None, diff_packages = None, diff_files = None\<rparr>"
  using assms
  by (simp add: getDiffData_def diffSettings_same diffPackages_same diffFiles_same)

theorem getDiffData_same_witness:
  "distinct_keys (settings local_snapshot) \<and> distinct_keys (packages local_snapshot) \<and>
   getDiffData 0 live_get example_patch local_snapshot local_snapshot =
     Some \<lparr>diff_settings = None, diff_packages = None, diff_files = None\<rparr>"
proof -
  have s: "distinct_keys (settings local_snapshot)" by (simp add: local_snapshot_def)
  have p: "distinct_keys (packages local_snapshot)" by (simp add: local_snapshot_def)
  from getDiffData_same[OF s p] s p show ?thesis by simp
qed









































section \<open>Proofs: order of the file names\<close>













section \<open>Proofs: malformed blobs\<close>






end
